theory Spec2Isabelle
  imports Complex_Main
begin

section \<open>The telemetry handler of the MPC controller (src/main.cpp)\<close>

text \<open>
  The program is one websocket message handler, the lambda given to \<open>h.onMessage\<close>
  in \<open>main\<close>. The embedding follows it statement by statement.
  \<^item> A \<open>double\<close> is a \<open>real\<close>: arithmetic is exact, there is no rounding, no
    infinity and no NaN. \<open>atan\<close> is \<open>arctan\<close>. The program computes in double
    precision, so the properties below are those that hold of the doubles as they hold
    of the reals: which expression is computed, what is zero, which side of a bound a
    value lies on. Nothing is stated that holds only up to rounding.
  \<^item> A \<open>vector<double>\<close> and an Eigen \<open>VectorXd\<close> are a \<open>real list\<close>. Reading
    or writing such a vector at an index beyond its size is undefined behaviour in C++:
    the program checks nothing, takes whatever lies past the end and goes on. The model
    cannot say what lies there and stops with the error \<open>OutOfRange\<close>. Every property
    below is stated for inputs on which no such access happens.
  \<^item> An exception thrown by a callee is a value \<open>Inl e\<close>; the lambda has no
    \<open>try\<close> block, so the first error ends the handler.
  \<^item> A run of the handler that never returns is \<open>None\<close>.
  \<^item> \<open>hasData\<close> (helpers.h), the parser and the printer of JSON text (json.hpp:
    \<open>json::parse\<close>, \<open>dump\<close>) and the optimizer \<open>MPC::Solve\<close> (MPC.h) are parameters
    of the handler. The logging to \<open>std::cout\<close> and the 100 ms sleep are not part of
    the model.
\<close>

subsection \<open>Errors and vectors\<close>

datatype error =
    ParseError
  | TypeError
  | OutOfRange
  | InsufficientPointsError
  | SingularFitError

definition vec_at :: "real list \<Rightarrow> nat \<Rightarrow> error + real" where
  "vec_at xs i = (if i < length xs then Inr (xs ! i) else Inl OutOfRange)"

subsection \<open>Degrees and radians (main.cpp, lines 20-22)\<close>

definition deg2rad :: "real \<Rightarrow> real" where
  "deg2rad x = x * pi / 180"

definition rad2deg :: "real \<Rightarrow> real" where
  "rad2deg x = x * 180 / pi"

subsection \<open>JSON values\<close>

text \<open>
  The values of json.hpp that the handler reads and builds; an object is the list of its
  members. The handler holds the parsed message in a variable that is not \<open>const\<close>, so
  \<open>j[i]\<close> beyond the end of an array and \<open>j[key]\<close> for a key that is missing read as
  null, and both read null from null. On a value of any other kind they throw, as the
  conversions to \<open>string\<close>, \<open>double\<close> and \<open>vector<double>\<close> do on a value they cannot
  convert. A boolean converts to the number 0 or 1.
\<close>

datatype json =
    JNull
  | JBool bool
  | JNumber real
  | JString string
  | JArray "json list"
  | JObject "(string \<times> json) list"

definition json_index :: "json \<Rightarrow> nat \<Rightarrow> error + json" where
  "json_index j i =
     (case j of
        JArray xs \<Rightarrow> (if i < length xs then Inr (xs ! i) else Inr JNull)
      | JNull \<Rightarrow> Inr JNull
      | _ \<Rightarrow> Inl TypeError)"

definition json_key :: "json \<Rightarrow> string \<Rightarrow> error + json" where
  "json_key j k =
     (case j of
        JObject kvs \<Rightarrow> (case map_of kvs k of Some v \<Rightarrow> Inr v | None \<Rightarrow> Inr JNull)
      | JNull \<Rightarrow> Inr JNull
      | _ \<Rightarrow> Inl TypeError)"

definition get_string :: "json \<Rightarrow> error + string" where
  "get_string j = (case j of JString s \<Rightarrow> Inr s | _ \<Rightarrow> Inl TypeError)"

definition get_double :: "json \<Rightarrow> error + real" where
  "get_double j =
     (case j of
        JNumber r \<Rightarrow> Inr r
      | JBool b \<Rightarrow> Inr (if b then 1 else 0)
      | _ \<Rightarrow> Inl TypeError)"

fun get_doubles :: "json list \<Rightarrow> error + real list" where
  "get_doubles [] = Inr []"
| "get_doubles (j # js) =
     (case get_double j of
        Inl e \<Rightarrow> Inl e
      | Inr r \<Rightarrow> (case get_doubles js of Inl e \<Rightarrow> Inl e | Inr rs \<Rightarrow> Inr (r # rs)))"

definition get_vector :: "json \<Rightarrow> error + real list" where
  "get_vector j = (case j of JArray xs \<Rightarrow> get_doubles xs | _ \<Rightarrow> Inl TypeError)"

definition number_field :: "json \<Rightarrow> string \<Rightarrow> error + real" where
  "number_field j k = (case json_key j k of Inl e \<Rightarrow> Inl e | Inr x \<Rightarrow> get_double x)"

definition vector_field :: "json \<Rightarrow> string \<Rightarrow> error + real list" where
  "vector_field j k = (case json_key j k of Inl e \<Rightarrow> Inl e | Inr x \<Rightarrow> get_vector x)"

subsection \<open>Reading the telemetry (main.cpp, lines 44-49)\<close>

type_synonym telemetry = "real list \<times> real list \<times> real \<times> real \<times> real \<times> real"

text \<open>The six values read from \<open>j[1]\<close>: \<open>ptsx\<close>, \<open>ptsy\<close>, \<open>px\<close>, \<open>py\<close>, \<open>psi\<close>, \<open>v\<close>.\<close>

definition read_telemetry :: "json \<Rightarrow> error + telemetry" where
  "read_telemetry j =
     (case json_index j 1 of Inl e \<Rightarrow> Inl e | Inr d \<Rightarrow>
      (case vector_field d ''ptsx'' of Inl e \<Rightarrow> Inl e | Inr xs \<Rightarrow>
       (case vector_field d ''ptsy'' of Inl e \<Rightarrow> Inl e | Inr ys \<Rightarrow>
        (case number_field d ''x'' of Inl e \<Rightarrow> Inl e | Inr x \<Rightarrow>
         (case number_field d ''y'' of Inl e \<Rightarrow> Inl e | Inr y \<Rightarrow>
          (case number_field d ''psi'' of Inl e \<Rightarrow> Inl e | Inr a \<Rightarrow>
           (case number_field d ''speed'' of Inl e \<Rightarrow> Inl e | Inr s \<Rightarrow>
              Inr (xs, ys, x, y, a, s))))))))"

subsection \<open>The waypoint transform (main.cpp, lines 56-61)\<close>

text \<open>
  The loop runs over the indices of \<open>ptsx\<close> and overwrites both vectors in place. It
  reads \<open>ptsy[i]\<close> without looking at the size of \<open>ptsy\<close>.
\<close>

function transform_loop ::
  "real \<Rightarrow> real \<Rightarrow> real \<Rightarrow> nat \<Rightarrow> real list \<times> real list \<Rightarrow> error + real list \<times> real list" where
  "transform_loop px py psi i (ptsx, ptsy) =
     (if i < length ptsx then
        (if i < length ptsy then
           (let delta_x = ptsx ! i - px;
                delta_y = ptsy ! i - py
            in transform_loop px py psi (i + 1)
                 (ptsx[i := delta_x * cos (- psi) - delta_y * sin (- psi)],
                  ptsy[i := delta_x * sin (- psi) + delta_y * cos (- psi)]))
         else Inl OutOfRange)
      else Inr (ptsx, ptsy))"
  by pat_completeness auto
termination
  by (relation "measure (\<lambda>(px, py, psi, i, ptsx, ptsy). length ptsx - i)") auto

subsection \<open>The reference curve (helpers.h: polyfit, polyeval)\<close>

text \<open>
  Modelled from the spec: helpers.h, which holds \<open>polyfit\<close> and \<open>polyeval\<close>, is missing
  from the sources. Section 4.2 asks for a linear least-squares fit over a Vandermonde
  design matrix and accepts the normal equations; the functions below build the normal
  equations and solve them exactly, by Cramer's rule.
\<close>

definition drop_col :: "nat \<Rightarrow> real list \<Rightarrow> real list" where
  "drop_col j r = take j r @ drop (Suc j) r"

text \<open>The determinant of a square matrix (a list of rows), expanded along the first row.\<close>

function det :: "real list list \<Rightarrow> real" where
  "det [] = 1"
| "det (r # rs) =
     sum_list (map (\<lambda>j. (- 1) ^ j * r ! j * det (map (drop_col j) rs)) [0..<length r])"
  by pat_completeness auto
termination
  by (relation "measure length") auto

text \<open>
  The normal equations \<open>N c = b\<close> of the fit of degree \<open>order\<close> through the points
  \<open>pts\<close>: \<open>N\<close> is the product of the transposed Vandermonde matrix with itself, \<open>b\<close> its
  product with the ordinates.
\<close>

definition normal_matrix :: "(real \<times> real) list \<Rightarrow> nat \<Rightarrow> real list list" where
  "normal_matrix pts order =
     map (\<lambda>j. map (\<lambda>k. sum_list (map (\<lambda>(x, y). x ^ j * x ^ k) pts)) [0..<order + 1])
       [0..<order + 1]"

definition normal_rhs :: "(real \<times> real) list \<Rightarrow> nat \<Rightarrow> real list" where
  "normal_rhs pts order =
     map (\<lambda>j. sum_list (map (\<lambda>(x, y). x ^ j * y) pts)) [0..<order + 1]"

definition replace_col :: "real list list \<Rightarrow> nat \<Rightarrow> real list \<Rightarrow> real list list" where
  "replace_col N k b = map (\<lambda>(row, bj). row[k := bj]) (zip N b)"

text \<open>
  Modelled from the spec: \<open>polyfit\<close> of helpers.h, which is missing from the sources.
  Section 4.2: a least-squares fit \<open>y = c0 + c1*x + c2*x^2 + c3*x^3\<close>, lowest order
  first, that fails with \<open>InsufficientPointsError\<close> when fewer than 4 points are
  supplied and with \<open>SingularFitError\<close> when the point set is degenerate. The handler
  passes the degree 3 as the third argument, so the number of points needed is
  \<open>order + 1\<close>.
\<close>

definition polyfit :: "real list \<Rightarrow> real list \<Rightarrow> nat \<Rightarrow> error + real list" where
  "polyfit xvals yvals order =
     (let pts = zip xvals yvals in
      if length pts < order + 1 then Inl InsufficientPointsError
      else
        (let N = normal_matrix pts order;
             b = normal_rhs pts order;
             d = det N
         in if d = 0 then Inl SingularFitError
            else Inr (map (\<lambda>k. det (replace_col N k b) / d) [0..<order + 1])))"

text \<open>
  Modelled from the spec: \<open>polyeval\<close> of helpers.h, which is missing from the sources.
  Section 4.3: the polynomial with the given coefficients, lowest order first, evaluated
  at \<open>x\<close>.
\<close>

definition polyeval :: "real list \<Rightarrow> real \<Rightarrow> real" where
  "polyeval coeffs x = sum_list (map (\<lambda>i. coeffs ! i * x ^ i) [0..<length coeffs])"

subsection \<open>The predicted path (main.cpp, lines 91-102)\<close>

text \<open>
  The loop \<open>for (int i = 2; i < vars.size(); i + 2)\<close>. Its third expression computes
  \<open>i + 2\<close> and drops it, so the next round runs with the same \<open>i\<close>.
\<close>

partial_function (option) path_loop ::
  "real list \<Rightarrow> nat \<Rightarrow> real list \<times> real list \<Rightarrow> (error + real list \<times> real list) option" where
  "path_loop vars i acc =
     (if i < length vars then
        (case vec_at vars i of Inl e \<Rightarrow> Some (Inl e) | Inr x \<Rightarrow>
          (case vec_at vars (i + 1) of Inl e \<Rightarrow> Some (Inl e) | Inr y \<Rightarrow>
             (let unused = i + 2
              in path_loop vars i (fst acc @ [x], snd acc @ [y]))))
      else Some (Inr acc))"

definition predicted_path :: "real list \<Rightarrow> (error + real list \<times> real list) option" where
  "predicted_path vars = path_loop vars 2 ([], [])"

subsection \<open>The tracking errors (main.cpp, lines 72-73)\<close>

definition cte :: "real list \<Rightarrow> real" where
  "cte coeffs = polyeval coeffs 0"

definition epsi :: "real list \<Rightarrow> error + real" where
  "epsi coeffs = (case vec_at coeffs 1 of Inl e \<Rightarrow> Inl e | Inr c1 \<Rightarrow> Inr (- arctan c1))"

subsection \<open>The actuation values (main.cpp, lines 81-88)\<close>

text \<open>
  The pair of \<open>msgJson["steering_angle"]\<close> and \<open>msgJson["throttle"]\<close>. The quotient is
  stored as it is computed.
\<close>

definition actuation :: "real list \<Rightarrow> error + real \<times> real" where
  "actuation vars =
     (case vec_at vars 0 of Inl e \<Rightarrow> Inl e | Inr v0 \<Rightarrow>
      (case vec_at vars 1 of Inl e \<Rightarrow> Inl e | Inr v1 \<Rightarrow>
         (let steer_value = - v0;
              throttle_value = v1
          in Inr (steer_value / deg2rad 25, throttle_value))))"

subsection \<open>The reply to a telemetry event (main.cpp, lines 84-112)\<close>

definition msgJson ::
  "real \<times> real \<Rightarrow> real list \<Rightarrow> real list \<Rightarrow> real list \<Rightarrow> real list \<Rightarrow> json" where
  "msgJson act mpc_x_vals mpc_y_vals next_x_vals next_y_vals =
     JObject
       [(''steering_angle'', JNumber (fst act)),
        (''throttle'', JNumber (snd act)),
        (''mpc_x'', JArray (map JNumber mpc_x_vals)),
        (''mpc_y'', JArray (map JNumber mpc_y_vals)),
        (''next_x'', JArray (map JNumber next_x_vals)),
        (''next_y'', JArray (map JNumber next_y_vals))]"

definition steer_msg :: "(json \<Rightarrow> string) \<Rightarrow> json \<Rightarrow> string" where
  \<open>steer_msg dump m = ''42["steer",'' @ dump m @ '']''\<close>

definition manual_msg :: string where
  \<open>manual_msg = ''42["manual",{}]''\<close>

definition steer_reply ::
  "(json \<Rightarrow> string) \<Rightarrow> real list \<Rightarrow> real list \<Rightarrow> real list \<Rightarrow> (error + string) option" where
  "steer_reply dump vars ptsx ptsy =
     (case actuation vars of Inl e \<Rightarrow> Some (Inl e) | Inr act \<Rightarrow>
        (let next_x_vals = ptsx;
             next_y_vals = ptsy
         in (case predicted_path vars of
               None \<Rightarrow> None
             | Some (Inl e) \<Rightarrow> Some (Inl e)
             | Some (Inr (mpc_x_vals, mpc_y_vals)) \<Rightarrow>
                 Some (Inr (steer_msg dump
                   (msgJson act mpc_x_vals mpc_y_vals next_x_vals next_y_vals))))))"

subsection \<open>One run of the handler (main.cpp, lines 30-132)\<close>

text \<open>
  What a run that returns has done: the error that ended it, if any, the messages given
  to \<open>ws.send\<close>, the arguments of every call of \<open>mpc.Solve\<close>, and the optimizer
  instance it leaves behind. The optimizer is a function from its instance and its two
  arguments to its result and the instance after the call.
\<close>

record 's outcome =
  failure :: "error option"
  sent :: "string list"
  solved :: "(real list \<times> real list) list"
  mpc_after :: 's

type_synonym 's solver = "'s \<Rightarrow> real list \<Rightarrow> real list \<Rightarrow> real list \<times> 's"

definition failed :: "error \<Rightarrow> (real list \<times> real list) list \<Rightarrow> 's \<Rightarrow> 's outcome" where
  "failed e calls m = \<lparr>failure = Some e, sent = [], solved = calls, mpc_after = m\<rparr>"

definition ignored :: "'s \<Rightarrow> 's outcome" where
  "ignored m = \<lparr>failure = None, sent = [], solved = [], mpc_after = m\<rparr>"

text \<open>
  Lines 44-77: from the parsed message to the two arguments of \<open>mpc.Solve\<close>, the
  state and the coefficients, with the transformed waypoints.
\<close>

definition control_input ::
  "json \<Rightarrow> error + (real list \<times> real list) \<times> (real list \<times> real list)" where
  "control_input j =
     (case read_telemetry j of Inl e \<Rightarrow> Inl e
      | Inr (ptsx, ptsy, px, py, psi, v) \<Rightarrow>
      (case transform_loop px py psi 0 (ptsx, ptsy) of Inl e \<Rightarrow> Inl e
       | Inr (ptsx, ptsy) \<Rightarrow>
       (case polyfit ptsx ptsy 3 of Inl e \<Rightarrow> Inl e
        | Inr coeffs \<Rightarrow>
        (case epsi coeffs of Inl e \<Rightarrow> Inl e
         | Inr epsi_value \<Rightarrow>
           (let state = [0, 0, 0, v, cte coeffs, epsi_value]
            in Inr ((state, coeffs), (ptsx, ptsy)))))))"

text \<open>Lines 42-125: the branch of the event \<open>telemetry\<close>.\<close>

definition telemetry_event :: "(json \<Rightarrow> string) \<Rightarrow> 's solver \<Rightarrow> 's \<Rightarrow> json \<Rightarrow> 's outcome option" where
  "telemetry_event dump Solve mpc j =
     (case control_input j of Inl e \<Rightarrow> Some (failed e [] mpc)
      | Inr ((state, coeffs), (ptsx, ptsy)) \<Rightarrow>
        (let (vars, mpc') = Solve mpc state coeffs
         in (case steer_reply dump vars ptsx ptsy of
               None \<Rightarrow> None
             | Some (Inl e) \<Rightarrow> Some (failed e [(state, coeffs)] mpc')
             | Some (Inr msg) \<Rightarrow>
                 Some \<lparr>failure = None, sent = [msg], solved = [(state, coeffs)],
                        mpc_after = mpc'\<rparr>)))"

text \<open>
  \<open>data\<close> is the text at the pointer the handler receives, up to its first NUL, and
  \<open>len\<close> the length it is given: \<open>sdata = string(data).substr(0, length)\<close>.
\<close>

definition onMessage ::
  "(string \<Rightarrow> string) \<Rightarrow> (string \<Rightarrow> error + json) \<Rightarrow> (json \<Rightarrow> string) \<Rightarrow> 's solver \<Rightarrow>
   's \<Rightarrow> string \<Rightarrow> nat \<Rightarrow> 's outcome option" where
  "onMessage hasData parse dump Solve mpc data len =
     (let sdata = take len data in
      if length sdata > 2 \<and> sdata ! 0 = CHR ''4'' \<and> sdata ! 1 = CHR ''2'' then
        (let s = hasData sdata in
         if s \<noteq> [] then
           (case parse s of Inl e \<Rightarrow> Some (failed e [] mpc) | Inr j \<Rightarrow>
            (case json_index j 0 of Inl e \<Rightarrow> Some (failed e [] mpc) | Inr j0 \<Rightarrow>
             (case get_string j0 of Inl e \<Rightarrow> Some (failed e [] mpc) | Inr event \<Rightarrow>
                if event = ''telemetry'' then telemetry_event dump Solve mpc j
                else Some (ignored mpc))))
         else Some \<lparr>failure = None, sent = [manual_msg], solved = [], mpc_after = mpc\<rparr>)
      else Some (ignored mpc))"

subsection \<open>Two telemetry messages\<close>

text \<open>
  Two parsed messages on which the properties below are evaluated: four waypoints on the
  curve \<open>y = 1 + x + x^3\<close> seen from the origin with heading 0, and the first three of
  them alone.
\<close>

definition example_telemetry :: json where
  "example_telemetry =
     JArray [JString ''telemetry'',
       JObject [(''ptsx'', JArray [JNumber 0, JNumber 1, JNumber 2, JNumber 3]),
                (''ptsy'', JArray [JNumber 1, JNumber 3, JNumber 11, JNumber 31]),
                (''x'', JNumber 0), (''y'', JNumber 0), (''psi'', JNumber 0),
                (''speed'', JNumber 10)]]"

definition short_telemetry :: json where
  "short_telemetry =
     JArray [JString ''telemetry'',
       JObject [(''ptsx'', JArray [JNumber 0, JNumber 1, JNumber 2]),
                (''ptsy'', JArray [JNumber 1, JNumber 3, JNumber 11]),
                (''x'', JNumber 0), (''y'', JNumber 0), (''psi'', JNumber 0),
                (''speed'', JNumber 10)]]"

section \<open>Properties\<close>

subsection \<open>The predicted-path loop\<close>

lemma path_loop_Some_short:
  assumes "path_loop vars i acc = Some r"
  shows "\<not> i + 1 < length vars"
proof (rule path_loop.raw_induct
        [where P = "\<lambda>vars i acc r. \<not> i + 1 < length vars", OF _ assms])
  fix f :: "real list \<Rightarrow> nat \<Rightarrow> real list \<times> real list \<Rightarrow> (error + real list \<times> real list) option"
  fix vars i acc r
  assume IH: "\<And>vars i acc r. f vars i acc = Some r \<Longrightarrow> \<not> i + 1 < length vars"
  assume body: "(if i < length vars then
        (case vec_at vars i of Inl e \<Rightarrow> Some (Inl e) | Inr x \<Rightarrow>
          (case vec_at vars (i + 1) of Inl e \<Rightarrow> Some (Inl e) | Inr y \<Rightarrow>
             (let unused = i + 2
              in f vars i (fst acc @ [x], snd acc @ [y]))))
      else Some (Inr acc)) = Some r"
  show "\<not> i + 1 < length vars"
  proof
    assume lt: "i + 1 < length vars"
    then have "f vars i (fst acc @ [vars ! i], snd acc @ [vars ! (i + 1)]) = Some r"
      using body by (simp add: vec_at_def)
    from IH [OF this] lt show False by simp
  qed
qed

lemma path_loop_diverges:
  "i + 1 < length vars \<Longrightarrow> path_loop vars i acc = None"
  using path_loop_Some_short [of vars i acc] by (cases "path_loop vars i acc") auto

lemma path_loop_past_end:
  "length vars \<le> i \<Longrightarrow> path_loop vars i acc = Some (Inr acc)"
  by (simp add: path_loop.simps)

text \<open>
  C1. The claim: for every solver result the extraction of the predicted path ends, with
  an x and a y sequence of the same length. The loop never advances its index, so on a
  solver result that has a trajectory point (here two actuations and the point (1, 2))
  it does not return.
\<close>

theorem predicted_path_never_returns:
  "predicted_path [0, 0, 1, 2] = None"
  unfolding predicted_path_def by (rule path_loop_diverges) simp

subsection \<open>The waypoint transform\<close>

lemma transform_loop_result:
  "length ptsx \<le> length ptsy \<Longrightarrow>
   \<exists>vx vy. transform_loop px py psi i (ptsx, ptsy) = Inr (vx, vy) \<and>
     length vx = length ptsx \<and> length vy = length ptsy \<and>
     (\<forall>k<length ptsx.
        vx ! k = (if k < i then ptsx ! k
                  else (ptsx ! k - px) * cos (- psi) - (ptsy ! k - py) * sin (- psi)) \<and>
        vy ! k = (if k < i then ptsy ! k
                  else (ptsx ! k - px) * sin (- psi) + (ptsy ! k - py) * cos (- psi)))"
proof (induction px py psi i "(ptsx, ptsy)" arbitrary: ptsx ptsy rule: transform_loop.induct)
  case (1 px py psi i ptsx ptsy)
  show ?case
  proof (cases "i < length ptsx")
    case False
    then show ?thesis by simp
  next
    case True
    with "1.prems" have iy: "i < length ptsy" by simp
    define nx where "nx = ptsx[i := (ptsx ! i - px) * cos (- psi) - (ptsy ! i - py) * sin (- psi)]"
    define ny where "ny = ptsy[i := (ptsx ! i - px) * sin (- psi) + (ptsy ! i - py) * cos (- psi)]"
    have len: "length nx \<le> length ny"
      using "1.prems" by (simp add: nx_def ny_def)
    have step: "transform_loop px py psi i (ptsx, ptsy) = transform_loop px py psi (i + 1) (nx, ny)"
      using True iy by (simp add: nx_def ny_def Let_def)
    from "1.hyps" [OF True iy refl refl, folded nx_def ny_def, OF len]
    obtain vx vy where r: "transform_loop px py psi (i + 1) (nx, ny) = Inr (vx, vy)"
      and lx: "length vx = length nx" and ly: "length vy = length ny"
      and pt: "\<forall>k<length nx.
        vx ! k = (if k < i + 1 then nx ! k
                  else (nx ! k - px) * cos (- psi) - (ny ! k - py) * sin (- psi)) \<and>
        vy ! k = (if k < i + 1 then ny ! k
                  else (nx ! k - px) * sin (- psi) + (ny ! k - py) * cos (- psi))"
      by blast
    have "\<forall>k<length ptsx.
        vx ! k = (if k < i then ptsx ! k
                  else (ptsx ! k - px) * cos (- psi) - (ptsy ! k - py) * sin (- psi)) \<and>
        vy ! k = (if k < i then ptsy ! k
                  else (ptsx ! k - px) * sin (- psi) + (ptsy ! k - py) * cos (- psi))"
    proof (intro allI impI)
      fix k assume k: "k < length ptsx"
      then have "k < length nx" by (simp add: nx_def)
      with pt have e: "vx ! k = (if k < i + 1 then nx ! k
                  else (nx ! k - px) * cos (- psi) - (ny ! k - py) * sin (- psi)) \<and>
        vy ! k = (if k < i + 1 then ny ! k
                  else (nx ! k - px) * sin (- psi) + (ny ! k - py) * cos (- psi))"
        by blast
      show "vx ! k = (if k < i then ptsx ! k
                  else (ptsx ! k - px) * cos (- psi) - (ptsy ! k - py) * sin (- psi)) \<and>
        vy ! k = (if k < i then ptsy ! k
                  else (ptsx ! k - px) * sin (- psi) + (ptsy ! k - py) * cos (- psi))"
      proof (cases "k = i")
        case True
        with e iy \<open>i < length ptsx\<close> show ?thesis by (simp add: nx_def ny_def)
      next
        case False
        with e show ?thesis by (simp add: nx_def ny_def)
      qed
    qed
    with r lx ly step show ?thesis by (simp add: nx_def ny_def)
  qed
qed

text \<open>
  C4. Origin anchoring: a waypoint at the position of the vehicle, \<open>(px, py)\<close>, is
  mapped to \<open>(0, 0)\<close>, whatever the heading \<open>psi\<close>.
\<close>

theorem transform_anchors_origin:
  assumes "length ptsx \<le> length ptsy" and "k < length ptsx"
    and "ptsx ! k = px" and "ptsy ! k = py"
  shows "\<exists>vx vy. transform_loop px py psi 0 (ptsx, ptsy) = Inr (vx, vy) \<and>
           vx ! k = 0 \<and> vy ! k = 0"
proof -
  from transform_loop_result [OF assms(1), of px py psi 0]
  obtain vx vy where r: "transform_loop px py psi 0 (ptsx, ptsy) = Inr (vx, vy)"
    and pt: "\<And>k. k < length ptsx \<Longrightarrow>
        vx ! k = (ptsx ! k - px) * cos (- psi) - (ptsy ! k - py) * sin (- psi) \<and>
        vy ! k = (ptsx ! k - px) * sin (- psi) + (ptsy ! k - py) * cos (- psi)"
    by auto
  from pt [OF assms(2)] assms(3,4) have "vx ! k = 0 \<and> vy ! k = 0" by simp
  with r show ?thesis by blast
qed

theorem transform_anchors_origin_witness:
  "transform_loop 3 5 (pi / 2) 0 ([1, 3], [2, 5]) = Inr ([- 3, 0], [2, 0])"
proof -
  from transform_anchors_origin [of "[1, 3]" "[2, 5]" 1 3 5 "pi / 2"]
  obtain vx vy where r: "transform_loop 3 5 (pi / 2) 0 ([1, 3], [2, 5]) = Inr (vx, vy)"
    and z: "vx ! 1 = 0" "vy ! 1 = 0"
    by auto
  have run: "transform_loop 3 5 (pi / 2) 0 ([1, 3], [2, 5]) = Inr ([- 3, 0], [2, 0])"
    by (simp add: Let_def)
  with r z show ?thesis by simp
qed

subsection \<open>The actuation values\<close>

lemma deg2rad_25_pos: "0 < deg2rad 25"
  by (simp add: deg2rad_def)

lemma deg2rad_25_less_1: "deg2rad 25 < 1"
  using pi_less_4 by (simp add: deg2rad_def)

lemma actuation_value:
  "2 \<le> length vars \<Longrightarrow> actuation vars = Inr (- vars ! 0 / deg2rad 25, vars ! 1)"
  by (auto simp: actuation_def vec_at_def)

text \<open>
  C2, as amended. For every solver result with at least two entries the steering value
  is \<open>- vars[0] / deg2rad(25)\<close> and the throttle is \<open>vars[1]\<close>. Nothing clamps the
  steering value: it lies in \<open>[-1, 1]\<close> exactly when \<open>vars[0]\<close> lies within
  \<open>deg2rad(25)\<close> of zero.
\<close>

theorem actuation_unclamped:
  assumes "2 \<le> length vars"
  shows "actuation vars = Inr (- vars ! 0 / deg2rad 25, vars ! 1) \<and>
         ((- 1 \<le> - vars ! 0 / deg2rad 25 \<and> - vars ! 0 / deg2rad 25 \<le> 1)
            = (\<bar>vars ! 0\<bar> \<le> deg2rad 25))"
proof
  show "actuation vars = Inr (- vars ! 0 / deg2rad 25, vars ! 1)"
    using assms by (rule actuation_value)
  show "(- 1 \<le> - vars ! 0 / deg2rad 25 \<and> - vars ! 0 / deg2rad 25 \<le> 1)
            = (\<bar>vars ! 0\<bar> \<le> deg2rad 25)"
    using deg2rad_25_pos by (auto simp: field_simps abs_le_iff)
qed

theorem actuation_unclamped_witness:
  "actuation [1 / 4, 1 / 2] = Inr (- (1 / 4) / deg2rad 25, 1 / 2) \<and>
   - 1 \<le> - (1 / 4) / deg2rad 25 \<and> - (1 / 4) / deg2rad 25 \<le> 1"
proof -
  have "\<bar>1 / 4 :: real\<bar> \<le> deg2rad 25"
    using pi_ge_two by (simp add: deg2rad_def)
  then show ?thesis
    using actuation_unclamped [of "[1 / 4, 1 / 2]"] by simp
qed

text \<open>
  C2, as stated, fails: a solver result that steers by one radian gives a steering value
  below \<open>-1\<close>.
\<close>

theorem actuation_out_of_range:
  "actuation [1, 0] = Inr (- 1 / deg2rad 25, 0) \<and> - 1 / deg2rad 25 < - 1"
proof
  show "actuation [1, 0] = Inr (- 1 / deg2rad 25, 0)"
    by (simp add: actuation_def vec_at_def)
  show "- 1 / deg2rad 25 < - 1"
    using deg2rad_25_pos deg2rad_25_less_1 by (simp add: field_simps)
qed

subsection \<open>The reference curve and the tracking errors\<close>

lemma polyeval_at_0: "coeffs \<noteq> [] \<Longrightarrow> polyeval coeffs 0 = coeffs ! 0"
proof -
  assume "coeffs \<noteq> []"
  then have len: "0 < length coeffs" by simp
  have "[0..<length coeffs] = 0 # [1..<length coeffs]"
    using len by (simp add: upt_conv_Cons)
  moreover have "sum_list (map (\<lambda>i. coeffs ! i * 0 ^ i) [1..<length coeffs]) = (0::real)"
    by (simp add: interv_sum_list_conv_sum_set_nat)
  ultimately show ?thesis
    by (simp add: polyeval_def)
qed

lemma polyfit_length:
  "polyfit xs ys order = Inr coeffs \<Longrightarrow> length coeffs = order + 1"
  by (auto simp: polyfit_def Let_def split: if_splits)

lemma polyfit_few_points:
  "length xs < order + 1 \<or> length ys < order + 1 \<Longrightarrow>
   polyfit xs ys order = Inl InsufficientPointsError"
  by (auto simp: polyfit_def Let_def min_def)

lemma control_input_few_points:
  assumes "read_telemetry j = Inr (ptsx, ptsy, px, py, psi, v)"
    and "length ptsx < 4" and "length ptsx \<le> length ptsy"
  shows "control_input j = Inl InsufficientPointsError"
proof -
  from transform_loop_result [OF assms(3), of px py psi 0]
  obtain vx vy where r: "transform_loop px py psi 0 (ptsx, ptsy) = Inr (vx, vy)"
    and lx: "length vx = length ptsx"
    by blast
  from lx assms(2) have "polyfit vx vy 3 = Inl InsufficientPointsError"
    by (simp add: polyfit_few_points)
  with r assms(1) show ?thesis
    by (simp add: control_input_def)
qed

lemma read_example:
  "read_telemetry example_telemetry = Inr ([0, 1, 2, 3], [1, 3, 11, 31], 0, 0, 0, 10)"
  by (simp add: example_telemetry_def read_telemetry_def json_index_def vector_field_def
      number_field_def json_key_def get_vector_def get_double_def)

lemma transform_example:
  "transform_loop 0 0 0 0 ([0, 1, 2, 3], [1, 3, 11, 31]) = Inr ([0, 1, 2, 3], [1, 3, 11, 31])"
  by (simp add: Let_def)

lemma polyfit_example:
  "polyfit [0, 1, 2, 3] [1, 3, 11, 31] 3 = Inr [1, 1, 0, 1]"
  by code_simp

lemma cte_example: "cte [1, 1, 0, 1] = 1"
  by (simp add: cte_def polyeval_def upt_conv_Cons)

lemma control_input_example:
  "control_input example_telemetry
     = Inr (([0, 0, 0, 10, 1, - (pi / 4)], [1, 1, 0, 1]), ([0, 1, 2, 3], [1, 3, 11, 31]))"
  by (simp add: control_input_def read_example transform_example polyfit_example
      cte_example epsi_def vec_at_def arctan_one)

lemma read_short:
  "read_telemetry short_telemetry = Inr ([0, 1, 2], [1, 3, 11], 0, 0, 0, 10)"
  by (simp add: short_telemetry_def read_telemetry_def json_index_def vector_field_def
      number_field_def json_key_def get_vector_def get_double_def)

lemma control_input_state:
  assumes "control_input j = Inr ((state, coeffs), wps)"
  shows "length coeffs = 4 \<and> length state = 6 \<and> take 3 state = [0, 0, 0] \<and>
         state ! 4 = coeffs ! 0 \<and> state ! 5 = - arctan (coeffs ! 1)"
proof -
  from assms obtain xs ys e where fit: "polyfit xs ys 3 = Inr coeffs"
    and e: "epsi coeffs = Inr e" and st: "state ! 4 = cte coeffs" "state ! 5 = e"
    "length state = 6" "take 3 state = [0, 0, 0]"
    by (auto simp: control_input_def Let_def split: sum.splits prod.splits)
  from fit have len: "length coeffs = 4" by (simp add: polyfit_length)
  then have "coeffs \<noteq> []" by auto
  then have "cte coeffs = coeffs ! 0" unfolding cte_def by (rule polyeval_at_0)
  moreover from len e have "e = - arctan (coeffs ! 1)"
    by (simp add: epsi_def vec_at_def)
  ultimately show ?thesis using len st by simp
qed

text \<open>
  C5. The cross-track error is the constant coefficient: \<open>cte = coeffs[0]\<close> for every
  non-empty sequence of coefficients, and the state a telemetry event hands to the
  optimizer holds, as its cross-track error, the constant coefficient of the fitted curve.
\<close>

theorem cte_is_constant_coefficient:
  "(coeffs \<noteq> [] \<longrightarrow> cte coeffs = coeffs ! 0) \<and>
   (control_input j = Inr ((state, fitted), wps) \<longrightarrow> state ! 4 = fitted ! 0)"
  using control_input_state [of j state fitted wps] by (simp add: cte_def polyeval_at_0)

theorem cte_is_constant_coefficient_witness:
  "cte [5, 6, 7, 8] = 5 \<and>
   control_input example_telemetry
     = Inr (([0, 0, 0, 10, 1, - (pi / 4)], [1, 1, 0, 1]), ([0, 1, 2, 3], [1, 3, 11, 31])) \<and>
   [0, 0, 0, 10, 1, - (pi / 4)] ! 4 = [1, 1, 0, 1 :: real] ! 0"
  using cte_is_constant_coefficient [of "[5, 6, 7, 8]" example_telemetry
      "[0, 0, 0, 10, 1, - (pi / 4)]" "[1, 1, 0, 1]" "([0, 1, 2, 3], [1, 3, 11, 31])"]
    control_input_example
  by simp

text \<open>
  C6. The heading error is \<open>- atan(coeffs[1])\<close> for every sequence of coefficients that
  has a \<open>coeffs[1]\<close>, and the state a telemetry event hands to the optimizer holds this
  value for the fitted curve.
\<close>

theorem epsi_is_neg_arctan:
  "(2 \<le> length coeffs \<longrightarrow> epsi coeffs = Inr (- arctan (coeffs ! 1))) \<and>
   (control_input j = Inr ((state, fitted), wps) \<longrightarrow> state ! 5 = - arctan (fitted ! 1))"
  using control_input_state [of j state fitted wps] by (simp add: epsi_def vec_at_def)

theorem epsi_is_neg_arctan_witness:
  "epsi [5, 1, 7, 8] = Inr (- (pi / 4)) \<and>
   control_input example_telemetry
     = Inr (([0, 0, 0, 10, 1, - (pi / 4)], [1, 1, 0, 1]), ([0, 1, 2, 3], [1, 3, 11, 31])) \<and>
   [0, 0, 0, 10, 1, - (pi / 4)] ! 5 = - arctan ([1, 1, 0, 1] ! 1)"
  using epsi_is_neg_arctan [of "[5, 1, 7, 8]" example_telemetry
      "[0, 0, 0, 10, 1, - (pi / 4)]" "[1, 1, 0, 1]" "([0, 1, 2, 3], [1, 3, 11, 31])"]
    control_input_example
  by (simp add: arctan_one)

text \<open>
  C8. The fit of degree 3 returns four coefficients whenever it succeeds; with fewer than
  four waypoints it fails with \<open>InsufficientPointsError\<close>; and a telemetry event with
  fewer than four waypoints ends in that error, with no message sent and the optimizer
  never called.
\<close>

theorem fit_degree:
  "(polyfit xs ys 3 = Inr coeffs \<longrightarrow> length coeffs = 4) \<and>
   (length xs < 4 \<or> length ys < 4 \<longrightarrow> polyfit xs ys 3 = Inl InsufficientPointsError) \<and>
   (read_telemetry j = Inr (ptsx, ptsy, px, py, psi, v) \<and>
      length ptsx < 4 \<and> length ptsx \<le> length ptsy \<longrightarrow>
      telemetry_event dump Solve mpc j
        = Some \<lparr>failure = Some InsufficientPointsError, sent = [], solved = [],
                 mpc_after = mpc\<rparr>)"
proof (intro conjI impI)
  assume "polyfit xs ys 3 = Inr coeffs"
  then show "length coeffs = 4" by (simp add: polyfit_length)
next
  assume "length xs < 4 \<or> length ys < 4"
  then show "polyfit xs ys 3 = Inl InsufficientPointsError"
    by (simp add: polyfit_few_points)
next
  assume "read_telemetry j = Inr (ptsx, ptsy, px, py, psi, v) \<and>
      length ptsx < 4 \<and> length ptsx \<le> length ptsy"
  then have "control_input j = Inl InsufficientPointsError"
    by (blast intro: control_input_few_points)
  then show "telemetry_event dump Solve mpc j
        = Some \<lparr>failure = Some InsufficientPointsError, sent = [], solved = [],
                 mpc_after = mpc\<rparr>"
    by (simp add: telemetry_event_def failed_def)
qed

theorem fit_degree_witness:
  "polyfit [0, 1, 2, 3] [1, 3, 11, 31] 3 = Inr [1, 1, 0, 1] \<and>
   length [1, 1, 0, 1 :: real] = 4 \<and>
   polyfit [0, 1, 2] [1, 3, 11] 3 = Inl InsufficientPointsError \<and>
   telemetry_event (\<lambda>j. ''{}'') (\<lambda>m st c. ([0, 1], Suc m)) 0 short_telemetry
     = Some \<lparr>failure = Some InsufficientPointsError, sent = [], solved = [], mpc_after = 0\<rparr>"
proof -
  note fit = fit_degree [of "[0, 1, 2, 3]" "[1, 3, 11, 31]" "[1, 1, 0, 1]"]
  note few = fit_degree [of "[0, 1, 2]" "[1, 3, 11]" _ short_telemetry "[0, 1, 2]" "[1, 3, 11]"
      0 0 0 10 "\<lambda>j. ''{}''" "\<lambda>m st c. ([0, 1], Suc m)" 0]
  from fit few polyfit_example read_short show ?thesis by simp
qed

subsection \<open>The handler\<close>

lemma onMessage_telemetry:
  assumes "2 < length (take len data)"
    and "take len data ! 0 = CHR ''4''" and "take len data ! 1 = CHR ''2''"
    and "hasData (take len data) \<noteq> []"
    and "parse (hasData (take len data)) = Inr j"
    and "json_index j 0 = Inr (JString ''telemetry'')"
  shows "onMessage hasData parse dump Solve mpc data len = telemetry_event dump Solve mpc j"
  using assms by (simp add: onMessage_def Let_def get_string_def)

text \<open>
  C7, as amended. A frame of more than two characters that starts with the marker \<open>42\<close>
  and for which \<open>hasData\<close> yields the empty string is answered by exactly one message,
  the \<open>manual\<close> event with the empty payload, and the optimizer is not called. A frame
  of at most two characters is not answered at all.
\<close>

theorem manual_fallback:
  \<open>(2 < length (take len data) \<and> take len data ! 0 = CHR ''4'' \<and> take len data ! 1 = CHR ''2'' \<and>
      hasData (take len data) = [] \<longrightarrow>
      onMessage hasData parse dump Solve mpc data len
        = Some \<lparr>failure = None, sent = [''42["manual",{}]''], solved = [], mpc_after = mpc\<rparr>) \<and>
   (length (take len data) \<le> 2 \<longrightarrow>
      onMessage hasData parse dump Solve mpc data len
        = Some \<lparr>failure = None, sent = [], solved = [], mpc_after = mpc\<rparr>)\<close>
  by (auto simp: onMessage_def Let_def manual_msg_def ignored_def)

theorem manual_fallback_witness:
  \<open>onMessage (\<lambda>s. []) (\<lambda>s. Inl ParseError) (\<lambda>j. []) (\<lambda>m st c. ([], m)) (0::nat) ''42x'' 3
     = Some \<lparr>failure = None, sent = [''42["manual",{}]''], solved = [], mpc_after = 0\<rparr> \<and>
   onMessage (\<lambda>s. []) (\<lambda>s. Inl ParseError) (\<lambda>j. []) (\<lambda>m st c. ([], m)) (0::nat) ''4'' 1
     = Some \<lparr>failure = None, sent = [], solved = [], mpc_after = 0\<rparr>\<close>
  using manual_fallback [of 3 "''42x''" "\<lambda>s. []" "\<lambda>s. Inl ParseError" "\<lambda>j. []" "\<lambda>m st c. ([], m)" "0::nat"]
    manual_fallback [of 1 "''4''" "\<lambda>s. []" "\<lambda>s. Inl ParseError" "\<lambda>j. []" "\<lambda>m st c. ([], m)" "0::nat"]
  by simp

text \<open>
  C7, as stated, fails: the frame that consists of the marker \<open>42\<close> alone carries the
  marker and has no payload, and the handler sends nothing.
\<close>

theorem marker_only_frame_unanswered:
  \<open>map_option sent
     (onMessage (\<lambda>s. []) (\<lambda>s. Inl ParseError) (\<lambda>j. []) (\<lambda>m st c. ([], m)) (0::nat) ''42'' 2)
     = Some []\<close>
  by (simp add: onMessage_def Let_def ignored_def)

lemma predicted_path_two: "length vars = 2 \<Longrightarrow> predicted_path vars = Some (Inr ([], []))"
  by (simp add: predicted_path_def path_loop_past_end)

lemma steer_reply_two:
  "length vars = 2 \<Longrightarrow>
   steer_reply dump vars ptsx ptsy
     = Some (Inr (steer_msg dump (msgJson (- vars ! 0 / deg2rad 25, vars ! 1) [] [] ptsx ptsy)))"
  by (simp add: steer_reply_def predicted_path_two actuation_value)

text \<open>
  C9. When the optimizer returns exactly two values for a telemetry event, the extraction
  of the predicted path returns at once with two empty sequences, the handler returns,
  and the one message it sends is a \<open>steer\<close> event whose \<open>mpc_x\<close> and \<open>mpc_y\<close> are
  empty arrays.
\<close>

theorem no_predicted_points:
  assumes "2 < length (take len data)"
    and "take len data ! 0 = CHR ''4''" and "take len data ! 1 = CHR ''2''"
    and "hasData (take len data) \<noteq> []"
    and "parse (hasData (take len data)) = Inr j"
    and "json_index j 0 = Inr (JString ''telemetry'')"
    and "control_input j = Inr ((state, coeffs), (ptsx, ptsy))"
    and "Solve mpc state coeffs = (vars, mpc')"
    and "length vars = 2"
  shows "predicted_path vars = Some (Inr ([], [])) \<and>
    (\<exists>m. onMessage hasData parse dump Solve mpc data len
        = Some \<lparr>failure = None, sent = [steer_msg dump m], solved = [(state, coeffs)],
                 mpc_after = mpc'\<rparr> \<and>
      json_key m ''mpc_x'' = Inr (JArray []) \<and> json_key m ''mpc_y'' = Inr (JArray []))"
proof
  show "predicted_path vars = Some (Inr ([], []))"
    using assms(9) by (rule predicted_path_two)
  let ?m = "msgJson (- vars ! 0 / deg2rad 25, vars ! 1) [] [] ptsx ptsy"
  have "onMessage hasData parse dump Solve mpc data len = telemetry_event dump Solve mpc j"
    using assms(1-6) by (rule onMessage_telemetry)
  also have "\<dots> = Some \<lparr>failure = None, sent = [steer_msg dump ?m], solved = [(state, coeffs)],
                 mpc_after = mpc'\<rparr>"
    using assms(7,8) steer_reply_two [OF assms(9)] by (simp add: telemetry_event_def)
  finally have run: "onMessage hasData parse dump Solve mpc data len
      = Some \<lparr>failure = None, sent = [steer_msg dump ?m], solved = [(state, coeffs)],
                 mpc_after = mpc'\<rparr>" .
  have "json_key ?m ''mpc_x'' = Inr (JArray [])" "json_key ?m ''mpc_y'' = Inr (JArray [])"
    by (simp_all add: msgJson_def json_key_def)
  with run show "\<exists>m. onMessage hasData parse dump Solve mpc data len
        = Some \<lparr>failure = None, sent = [steer_msg dump m], solved = [(state, coeffs)],
                 mpc_after = mpc'\<rparr> \<and>
      json_key m ''mpc_x'' = Inr (JArray []) \<and> json_key m ''mpc_y'' = Inr (JArray [])"
    by blast
qed

theorem no_predicted_points_witness:
  \<open>onMessage (drop 2) (\<lambda>s. Inr example_telemetry) (\<lambda>j. ''{}'') (\<lambda>m st c. ([0, 1], Suc m))
      0 ''42[]'' 4
     = Some \<lparr>failure = None, sent = [''42["steer",{}]''],
              solved = [([0, 0, 0, 10, 1, - (pi / 4)], [1, 1, 0, 1])], mpc_after = 1\<rparr>\<close>
proof -
  have frame: "2 < length (take 4 ''42[]'')" "take 4 ''42[]'' ! 0 = CHR ''4''"
    "take 4 ''42[]'' ! 1 = CHR ''2''" "drop 2 (take 4 ''42[]'') \<noteq> []"
    by simp_all
  have event: "json_index example_telemetry 0 = Inr (JString ''telemetry'')"
    by (simp add: json_index_def example_telemetry_def)
  have two: "length [0, 1 :: real] = 2" by simp
  note inst = no_predicted_points [of 4 "''42[]''" "drop 2" "\<lambda>s. Inr example_telemetry"
      example_telemetry "[0, 0, 0, 10, 1, - (pi / 4)]" "[1, 1, 0, 1]" "[0, 1, 2, 3]"
      "[1, 3, 11, 31]" "\<lambda>m st c. ([0, 1], Suc m)" 0 "[0, 1]" "Suc 0" "\<lambda>j. ''{}''"]
  from inst [OF frame refl event control_input_example refl two]
  show ?thesis by (auto simp: steer_msg_def)
qed

end
